theory Spec2Isabelle
  imports Main
begin

section \<open>Strings, as the source language has them\<close>

text \<open>
  A string of the source is a sequence of UTF-16 code units. The bullet of the
  subchapter pattern is the unit U+2022, which no byte holds, so a unit is a natural
  number here and \<open>ascii\<close> embeds the literals of the source.
\<close>

type_synonym jsstring = "nat list"

definition ascii :: "string \<Rightarrow> jsstring" where
  "ascii s = map of_char s"

text \<open>
  White space is what both \<open>trim()\<close> and the pattern class for white space
  remove: tab, line feed, vertical tab, form feed, carriage return, space, no-break space,
  U+1680, U+2000 to U+200A, U+2028, U+2029, U+202F, U+205F, U+3000 and U+FEFF.
\<close>

definition isWhiteSpace :: "nat \<Rightarrow> bool" where
  "isWhiteSpace c \<longleftrightarrow>
     (9 \<le> c \<and> c \<le> 13) \<or> c = 32 \<or> c = 160 \<or> c = 5760 \<or> (8192 \<le> c \<and> c \<le> 8202)
     \<or> c = 8232 \<or> c = 8233 \<or> c = 8239 \<or> c = 8287 \<or> c = 12288 \<or> c = 65279"

definition isDigit :: "nat \<Rightarrow> bool" where
  "isDigit c \<longleftrightarrow> 48 \<le> c \<and> c \<le> 57"

definition isUpper :: "nat \<Rightarrow> bool" where
  "isUpper c \<longleftrightarrow> 65 \<le> c \<and> c \<le> 90"

definition isLower :: "nat \<Rightarrow> bool" where
  "isLower c \<longleftrightarrow> 97 \<le> c \<and> c \<le> 122"

definition isLetter :: "nat \<Rightarrow> bool" where
  "isLetter c \<longleftrightarrow> isUpper c \<or> isLower c"

definition trim :: "jsstring \<Rightarrow> jsstring" where
  "trim s = rev (dropWhile isWhiteSpace (rev (dropWhile isWhiteSpace s)))"

text \<open>
  \<open>toLowerCase()\<close> is only ever followed by \<open>includes\<close> of an ASCII keyword, so
  what matters is which units become ASCII letters: the capitals A to Z, U+0130 (which
  becomes i followed by U+0307) and the Kelvin sign U+212A (which becomes k). Every other
  unit is lowered to units outside ASCII and is left as it is.
\<close>

definition lowerUnit :: "nat \<Rightarrow> jsstring" where
  "lowerUnit c =
     (if isUpper c then [c + 32]
      else if c = 304 then [105, 775]
      else if c = 8490 then [107]
      else [c])"

definition toLowerCase :: "jsstring \<Rightarrow> jsstring" where
  "toLowerCase s = concat (map lowerUnit s)"

fun startsWith :: "jsstring \<Rightarrow> jsstring \<Rightarrow> bool" where
  "startsWith s [] = True"
| "startsWith [] (p # ps) = False"
| "startsWith (c # cs) (p # ps) = (c = p \<and> startsWith cs ps)"

fun includes_str :: "jsstring \<Rightarrow> jsstring \<Rightarrow> bool" where
  "includes_str [] p = (p = [])"
| "includes_str (c # cs) p = (startsWith (c # cs) p \<or> includes_str cs p)"

text \<open>\<open>xs.join(sep)\<close> on strings.\<close>

fun join :: "jsstring \<Rightarrow> jsstring list \<Rightarrow> jsstring" where
  "join sep [] = []"
| "join sep [x] = x"
| "join sep (x # y # ys) = x @ sep @ join sep (y # ys)"

text \<open>
  \<open>String(n)\<close> of a counter. The counters start at 1 and grow by one for each row,
  so they stay far below the first integer a double cannot hold and print in decimal.
\<close>

fun String_nat :: "nat \<Rightarrow> jsstring" where
  "String_nat n = (if n < 10 then [48 + n] else String_nat (n div 10) @ [48 + n mod 10])"

declare String_nat.simps [simp del]

section \<open>The two patterns\<close>

text \<open>
  The patterns of \<open>parseExcelToSoW\<close> are written as terms and run by a backtracking
  matcher in continuation style, which tries the alternatives in the order the engine of
  the source does: the left branch of a choice first, an optional part present first, a
  repetition as long as possible first. The matcher starts at the first unit: both
  patterns are anchored at the start and carry no flag but \<open>i\<close>, so no later start can
  match.
\<close>

datatype cls = Digit | Space | Letter

datatype regex =
    Chars jsstring
  | Class cls
  | Seq regex regex
  | Alt regex regex
  | Opt regex
  | Star cls
  | Plus cls

text \<open>
  Under the flag \<open>i\<close> two units match when they are equal after \<open>canon\<close>. The
  engine folds a to z onto A to Z and never folds a unit outside ASCII onto one inside;
  the patterns hold only ASCII units and the bullet, which has no case.
\<close>

definition canon :: "nat \<Rightarrow> nat" where
  "canon c = (if isLower c then c - 32 else c)"

fun inClass :: "cls \<Rightarrow> nat \<Rightarrow> bool" where
  "inClass Digit c = isDigit c"
| "inClass Space c = isWhiteSpace c"
| "inClass Letter c = isUpper (canon c)"

fun star :: "cls \<Rightarrow> jsstring \<Rightarrow> (jsstring \<Rightarrow> jsstring option) \<Rightarrow> jsstring option" where
  "star c [] k = k []"
| "star c (x # xs) k =
     (if inClass c x
      then (case star c xs k of Some r \<Rightarrow> Some r | None \<Rightarrow> k (x # xs))
      else k (x # xs))"

fun rmatch :: "regex \<Rightarrow> jsstring \<Rightarrow> (jsstring \<Rightarrow> jsstring option) \<Rightarrow> jsstring option" where
  "rmatch (Chars p) s k =
     (if length p \<le> length s \<and> map canon (take (length p) s) = map canon p
      then k (drop (length p) s) else None)"
| "rmatch (Class c) s k =
     (case s of [] \<Rightarrow> None | x # xs \<Rightarrow> if inClass c x then k xs else None)"
| "rmatch (Seq a b) s k = rmatch a s (\<lambda>s'. rmatch b s' k)"
| "rmatch (Alt a b) s k =
     (case rmatch a s k of Some r \<Rightarrow> Some r | None \<Rightarrow> rmatch b s k)"
| "rmatch (Opt a) s k =
     (case rmatch a s k of Some r \<Rightarrow> Some r | None \<Rightarrow> k s)"
| "rmatch (Star c) s k = star c s k"
| "rmatch (Plus c) s k =
     (case s of [] \<Rightarrow> None | x # xs \<Rightarrow> if inClass c x then star c xs k else None)"

text \<open>
  \<open>exec r s\<close> is what is left of \<open>s\<close> behind the match of \<open>r\<close> at its start, if
  there is one; \<open>s.match(r)\<close> is truthy when there is one, and \<open>s.replace(r, '')\<close>
  is what is left, or \<open>s\<close> itself without a match.
\<close>

definition exec :: "regex \<Rightarrow> jsstring \<Rightarrow> jsstring option" where
  "exec r s = rmatch r s Some"

definition matches :: "jsstring \<Rightarrow> regex \<Rightarrow> bool" where
  "matches s r \<longleftrightarrow> exec r s \<noteq> None"

definition replace_empty :: "jsstring \<Rightarrow> regex \<Rightarrow> jsstring" where
  "replace_empty s r = (case exec r s of None \<Rightarrow> s | Some rest \<Rightarrow> rest)"

text \<open>
  The chapter pattern: an optional \<open>chapter\<close> with white space behind it, then either
  digits, an optional dot and white space, or one letter, an optional dot and white space.
\<close>

definition chapterPattern :: regex where
  "chapterPattern =
     Seq (Opt (Seq (Chars (ascii ''chapter'')) (Star Space)))
         (Alt (Seq (Plus Digit) (Seq (Opt (Chars (ascii ''.''))) (Star Space)))
              (Seq (Class Letter) (Seq (Opt (Chars (ascii ''.''))) (Star Space))))"

text \<open>
  The subchapter pattern: white space, then digits, a dot and digits, or a letter and a
  closing parenthesis, or the bullet U+2022, or a hyphen. The pattern of \<open>replace\<close> is
  the same with white space behind it.
\<close>

definition subchapterAlternatives :: regex where
  "subchapterAlternatives =
     Alt (Seq (Plus Digit) (Seq (Chars (ascii ''.'')) (Plus Digit)))
         (Alt (Seq (Class Letter) (Chars (ascii '')'')))
              (Alt (Chars [8226]) (Chars (ascii ''-''))))"

definition subchapterPattern :: regex where
  "subchapterPattern = Seq (Star Space) subchapterAlternatives"

definition subchapterPrefix :: regex where
  "subchapterPrefix = Seq (Star Space) (Seq subchapterAlternatives (Star Space))"

section \<open>The grid and the document\<close>

text \<open>
  A cell of the grid is a string, a number, a boolean or nothing (\<open>undefined\<close>, also
  what reading behind the end of a row gives). The code tests a number for truthiness and
  turns it into text, nothing more, and the printing of doubles is outside this
  development: a numeric cell is kept as the text \<open>String()\<close> gives for it. The falsy
  numbers, zero and NaN, print as \<open>0\<close> and \<open>NaN\<close>. A row is an array, as the type of
  the parameter says.
\<close>

datatype cell = Text jsstring | Number jsstring | Bool bool | Empty

type_synonym grid = "cell list list"

fun truthy :: "cell \<Rightarrow> bool" where
  "truthy (Text s) = (s \<noteq> [])"
| "truthy (Number d) = (d \<noteq> ascii ''0'' \<and> d \<noteq> ascii ''NaN'')"
| "truthy (Bool b) = b"
| "truthy Empty = False"

fun String_of :: "cell \<Rightarrow> jsstring" where
  "String_of (Text s) = s"
| "String_of (Number d) = d"
| "String_of (Bool b) = (if b then ascii ''true'' else ascii ''false'')"
| "String_of Empty = ascii ''undefined''"

text \<open>\<open>row[i]\<close>.\<close>

definition cell_at :: "cell list \<Rightarrow> nat \<Rightarrow> cell" where
  "cell_at row i = (if i < length row then row ! i else Empty)"

text \<open>\<open>row.join(' ')\<close>: an absent element gives the empty string.\<close>

fun join_text :: "cell \<Rightarrow> jsstring" where
  "join_text Empty = []"
| "join_text c = String_of c"

definition row_join :: "cell list \<Rightarrow> jsstring" where
  "row_join row = join (ascii '' '') (map join_text row)"

record sow_subchapter =
  sub_id :: jsstring
  sub_title :: jsstring
  sub_content :: jsstring

record sow_chapter =
  ch_id :: jsstring
  ch_title :: jsstring
  ch_content :: jsstring
  ch_subchapters :: "sow_subchapter list"

record sow_content =
  doc_chapters :: "sow_chapter list"

record sow =
  title :: jsstring
  description :: jsstring
  content :: sow_content

datatype error = Error string

section \<open>parseExcelToSoW\<close>

subsection \<open>Title and description: the first five rows\<close>

text \<open>The pair is \<open>(title, description)\<close>; one call is one round of the first loop.\<close>

definition meta_row :: "jsstring \<times> jsstring \<Rightarrow> cell list \<Rightarrow> jsstring \<times> jsstring" where
  "meta_row td row =
     (case cell_at row 0 of
        Text s \<Rightarrow>
          if s \<noteq> [] \<and> trim s \<noteq> [] then
            if includes_str (toLowerCase s) (ascii ''title'')
               \<or> includes_str (toLowerCase s) (ascii ''project'')
            then (if truthy (cell_at row 1) then trim (String_of (cell_at row 1)) else fst td,
                  snd td)
            else if includes_str (toLowerCase s) (ascii ''description'')
            then (fst td,
                  if truthy (cell_at row 1) then trim (String_of (cell_at row 1)) else snd td)
            else td
          else td
      | _ \<Rightarrow> td)"

definition metadata :: "grid \<Rightarrow> jsstring \<times> jsstring" where
  "metadata data =
     foldl meta_row (ascii ''Imported SoW Document'', ascii ''Imported from Excel file'')
       (take (min 5 (length data)) data)"

subsection \<open>Chapters: the rows behind the header\<close>

record scan =
  chapters :: "sow_chapter list"
  currentChapter :: "sow_chapter option"
  chapterCounter :: nat
  subChapterCounter :: nat

definition scan_init :: scan where
  "scan_init = \<lparr>chapters = [], currentChapter = None, chapterCounter = 1,
                subChapterCounter = 1\<rparr>"

definition cellValue :: "cell list \<Rightarrow> jsstring" where
  "cellValue row = trim (String_of (cell_at row 0))"

definition contentValue :: "cell list \<Rightarrow> jsstring" where
  "contentValue row =
     (if truthy (cell_at row 1) then trim (String_of (cell_at row 1)) else [])"

definition isChapterStart :: "jsstring \<Rightarrow> bool" where
  "isChapterStart cv \<longleftrightarrow>
     matches cv chapterPattern
     \<or> includes_str (toLowerCase cv) (ascii ''overview'')
     \<or> includes_str (toLowerCase cv) (ascii ''requirement'')
     \<or> includes_str (toLowerCase cv) (ascii ''deliverable'')
     \<or> includes_str (toLowerCase cv) (ascii ''timeline'')
     \<or> includes_str (toLowerCase cv) (ascii ''budget'')"

definition isSubchapterStart :: "jsstring \<Rightarrow> bool" where
  "isSubchapterStart cv \<longleftrightarrow>
     matches cv subchapterPattern \<or> startsWith cv (ascii ''  '')"

text \<open>\<open>chapters.push(currentChapter)\<close> when there is a current chapter.\<close>

definition push_current :: "scan \<Rightarrow> sow_chapter list" where
  "push_current st =
     (case currentChapter st of None \<Rightarrow> chapters st | Some c \<Rightarrow> chapters st @ [c])"

text \<open>The line a row adds to the content of the current chapter.\<close>

definition content_line :: "jsstring \<Rightarrow> jsstring \<Rightarrow> jsstring" where
  "content_line cv cont = cv @ (if cont \<noteq> [] then ascii '': '' @ cont else [])"

text \<open>
  One round of the second loop. The current chapter is pushed onto \<open>chapters\<close> only
  when the next one starts or the loop is over, so the object that the subchapter and
  content branches change is held by \<open>currentChapter\<close> alone.
\<close>

definition scan_row :: "scan \<Rightarrow> cell list \<Rightarrow> scan" where
  "scan_row st row =
     (if \<not> truthy (cell_at row 0) then st
      else if isChapterStart (cellValue row) then
        st\<lparr>chapters := push_current st,
           currentChapter := Some \<lparr>ch_id = String_nat (chapterCounter st),
                                   ch_title = cellValue row,
                                   ch_content = contentValue row,
                                   ch_subchapters = []\<rparr>,
           chapterCounter := chapterCounter st + 1,
           subChapterCounter := 1\<rparr>
      else
        (case currentChapter st of
           None \<Rightarrow> st
         | Some c \<Rightarrow>
             if cellValue row = [] then st
             else if isSubchapterStart (cellValue row) then
               st\<lparr>currentChapter := Some (c\<lparr>ch_subchapters := ch_subchapters c @
                     [\<lparr>sub_id = ch_id c @ ascii ''.'' @ String_nat (subChapterCounter st),
                       sub_title = replace_empty (cellValue row) subchapterPrefix,
                       sub_content = contentValue row\<rparr>]\<rparr>),
                  subChapterCounter := subChapterCounter st + 1\<rparr>
             else if ch_content c \<noteq> [] then
               st\<lparr>currentChapter := Some (c\<lparr>ch_content :=
                     ch_content c @ [10] @ content_line (cellValue row) (contentValue row)\<rparr>)\<rparr>
             else
               st\<lparr>currentChapter := Some (c\<lparr>ch_content :=
                     content_line (cellValue row) (contentValue row)\<rparr>)\<rparr>))"

text \<open>The chapters after the loop and the push of the last chapter.\<close>

definition scan_chapters :: "grid \<Rightarrow> sow_chapter list" where
  "scan_chapters data = push_current (foldl scan_row scan_init (drop 1 data))"

definition fallback_chapter :: "grid \<Rightarrow> sow_chapter" where
  "fallback_chapter data =
     \<lparr>ch_id = ascii ''1'',
      ch_title = ascii ''Project Overview'',
      ch_content = join [10] (map row_join (drop 1 data)),
      ch_subchapters = []\<rparr>"

text \<open>The argument is \<open>None\<close> when \<open>data\<close> is \<open>undefined\<close> or \<open>null\<close>.\<close>

definition parseExcelToSoW :: "grid option \<Rightarrow> error + sow" where
  "parseExcelToSoW data =
     (case data of
        None \<Rightarrow> Inl (Error ''Empty Excel file'')
      | Some rows \<Rightarrow>
          if length rows = 0 then Inl (Error ''Empty Excel file'')
          else
            Inr \<lparr>title = fst (metadata rows),
                 description = snd (metadata rows),
                 content = \<lparr>doc_chapters =
                   (if length (scan_chapters rows) = 0 then [fallback_chapter rows]
                    else scan_chapters rows)\<rparr>\<rparr>)"

section \<open>Notions the properties are stated with\<close>

text \<open>
  A row qualifies for the title when its first cell is a string that holds \<open>title\<close>
  or \<open>project\<close> and its second cell is truthy; it qualifies for the description when
  the first cell is a string that holds \<open>description\<close> and neither of the other two
  words (the \<open>else if\<close> of the first loop) and the second cell is truthy.
\<close>

definition title_row :: "cell list \<Rightarrow> bool" where
  "title_row row \<longleftrightarrow>
     (case cell_at row 0 of
        Text s \<Rightarrow>
          (includes_str (toLowerCase s) (ascii ''title'')
           \<or> includes_str (toLowerCase s) (ascii ''project''))
          \<and> truthy (cell_at row 1)
      | _ \<Rightarrow> False)"

definition description_row :: "cell list \<Rightarrow> bool" where
  "description_row row \<longleftrightarrow>
     (case cell_at row 0 of
        Text s \<Rightarrow>
          \<not> includes_str (toLowerCase s) (ascii ''title'')
          \<and> \<not> includes_str (toLowerCase s) (ascii ''project'')
          \<and> includes_str (toLowerCase s) (ascii ''description'')
          \<and> truthy (cell_at row 1)
      | _ \<Rightarrow> False)"

text \<open>
  A round of the second loop takes its row for a subchapter when the current chapter has
  one subchapter more behind it. A round that starts a chapter leaves a current chapter
  without subchapters, so it is never counted.
\<close>

definition adds_subchapter :: "scan \<Rightarrow> cell list \<Rightarrow> bool" where
  "adds_subchapter st row \<longleftrightarrow>
     (case currentChapter st of
        None \<Rightarrow> False
      | Some c \<Rightarrow>
          (case currentChapter (scan_row st row) of
             None \<Rightarrow> False
           | Some c' \<Rightarrow> length (ch_subchapters c') = Suc (length (ch_subchapters c))))"

text \<open>The five words that start a chapter wherever they stand in the first cell.\<close>

definition chapterKeywords :: "jsstring list" where
  "chapterKeywords = map ascii [''overview'', ''requirement'', ''deliverable'', ''timeline'', ''budget'']"

text \<open>The ids a scan gives: the chapters count from 1, the subchapters of each from 1.\<close>

definition chapter_ids :: "sow_chapter list \<Rightarrow> bool" where
  "chapter_ids cs \<longleftrightarrow> map ch_id cs = map String_nat [1..<Suc (length cs)]"

definition subchapter_ids :: "sow_chapter \<Rightarrow> bool" where
  "subchapter_ids c \<longleftrightarrow>
     map sub_id (ch_subchapters c) =
     map (\<lambda>n. ch_id c @ ascii ''.'' @ String_nat n) [1..<Suc (length (ch_subchapters c))]"

text \<open>What holds between two rounds of the second loop.\<close>

definition scan_inv :: "scan \<Rightarrow> bool" where
  "scan_inv st \<longleftrightarrow>
     chapter_ids (push_current st)
     \<and> chapterCounter st = Suc (length (push_current st))
     \<and> list_all subchapter_ids (push_current st)
     \<and> (case currentChapter st of
          None \<Rightarrow> True
        | Some c \<Rightarrow> subChapterCounter st = Suc (length (ch_subchapters c)))"

section \<open>The patterns, by the first unit\<close>

lemma trim_prefix: "\<exists>zs. dropWhile isWhiteSpace s = trim s @ zs"
proof -
  let ?t = "dropWhile isWhiteSpace s"
  have "rev ?t = takeWhile isWhiteSpace (rev ?t) @ dropWhile isWhiteSpace (rev ?t)"
    by simp
  then have "?t = rev (dropWhile isWhiteSpace (rev ?t)) @ rev (takeWhile isWhiteSpace (rev ?t))"
    by (metis rev_append rev_rev_ident)
  then show ?thesis unfolding trim_def by blast
qed

lemma trim_head: "trim s = c # cs \<Longrightarrow> \<not> isWhiteSpace c"
proof -
  assume a: "trim s = c # cs"
  obtain zs where "dropWhile isWhiteSpace s = trim s @ zs" using trim_prefix by blast
  with a have "dropWhile isWhiteSpace s = c # (cs @ zs)" by simp
  then show ?thesis by (metis hd_dropWhile list.sel(1) list.distinct(1))
qed

lemma star_total: "(\<And>r. k r \<noteq> None) \<Longrightarrow> star c s k \<noteq> None"
  by (induction s) (auto split: option.splits)

lemma opt_total: "k s \<noteq> None \<Longrightarrow> rmatch (Opt a) s k \<noteq> None"
  by (cases "rmatch a s k") simp_all

lemma alt_total_left: "rmatch a s k \<noteq> None \<Longrightarrow> rmatch (Alt a b) s k \<noteq> None"
  by (cases "rmatch a s k") simp_all

lemma alt_total_right: "rmatch b s k \<noteq> None \<Longrightarrow> rmatch (Alt a b) s k \<noteq> None"
  by (cases "rmatch a s k") simp_all

lemma tail_total: "rmatch (Seq (Opt a) (Star Space)) s Some \<noteq> None"
proof -
  have "star Space s Some \<noteq> None" by (rule star_total) simp
  then have "rmatch (Opt a) s (\<lambda>s'. rmatch (Star Space) s' Some) \<noteq> None"
    by (intro opt_total) simp
  then show ?thesis by simp
qed

lemma isLetter_canon: "isLetter c \<longleftrightarrow> isUpper (canon c)"
  by (auto simp: isLetter_def isUpper_def isLower_def canon_def)

lemma plus_seq:
  "inClass c x \<Longrightarrow> rmatch (Seq (Plus c) d) (x # xs) k = star c xs (\<lambda>s'. rmatch d s' k)"
  by simp

lemma class_seq:
  "inClass c x \<Longrightarrow> rmatch (Seq (Class c) d) (x # xs) k = rmatch d xs k"
  by simp

lemma chapterPattern_head:
  assumes "isDigit c \<or> isLetter c"
  shows "matches (c # cs) chapterPattern"
proof -
  let ?dot = "Seq (Opt (Chars (ascii ''.''))) (Star Space)"
  let ?alt = "Alt (Seq (Plus Digit) ?dot) (Seq (Class Letter) ?dot)"
  have tl: "\<And>r. rmatch ?dot r Some \<noteq> None" by (rule tail_total)
  have "rmatch ?alt (c # cs) Some \<noteq> None"
  proof (cases "isDigit c")
    case True
    then have "inClass Digit c" by simp
    moreover have "star Digit cs (\<lambda>s'. rmatch ?dot s' Some) \<noteq> None"
      using tl by (rule star_total)
    ultimately have "rmatch (Seq (Plus Digit) ?dot) (c # cs) Some \<noteq> None"
      by (simp del: rmatch.simps add: plus_seq)
    then show ?thesis by (rule alt_total_left)
  next
    case False
    with assms have "inClass Letter c" by (simp add: isLetter_canon)
    with tl[of cs] have "rmatch (Seq (Class Letter) ?dot) (c # cs) Some \<noteq> None"
      by (simp del: rmatch.simps add: class_seq)
    then show ?thesis by (rule alt_total_right)
  qed
  then have "rmatch (Opt (Seq (Chars (ascii ''chapter'')) (Star Space))) (c # cs)
               (\<lambda>s'. rmatch ?alt s' Some) \<noteq> None"
    by (rule opt_total)
  then show ?thesis
    by (simp only: matches_def exec_def chapterPattern_def rmatch.simps(3) not_False_eq_True)
qed

text \<open>And nothing else matches the chapter pattern.\<close>

lemma chapterPattern_iff:
  "matches s chapterPattern \<longleftrightarrow> (\<exists>c cs. s = c # cs \<and> (isDigit c \<or> isLetter c))"
proof
  assume m: "matches s chapterPattern"
  show "\<exists>c cs. s = c # cs \<and> (isDigit c \<or> isLetter c)"
  proof (cases s)
    case Nil
    with m show ?thesis
      by (simp add: matches_def exec_def chapterPattern_def ascii_def)
  next
    case (Cons c cs)
    have "isDigit c \<or> isLetter c"
    proof (rule ccontr)
      assume n: "\<not> (isDigit c \<or> isLetter c)"
      then have "\<not> isUpper (canon c)" by (simp add: isLetter_canon)
      moreover from this have "canon c \<noteq> 67" by (auto simp: isUpper_def)
      ultimately have "exec chapterPattern (c # cs) = None"
        using n by (simp add: exec_def chapterPattern_def ascii_def canon_def isLower_def)
      with m Cons show False by (simp add: matches_def)
    qed
    with Cons show ?thesis by simp
  qed
next
  assume "\<exists>c cs. s = c # cs \<and> (isDigit c \<or> isLetter c)"
  then show "matches s chapterPattern" using chapterPattern_head by blast
qed

lemma subchapterPattern_head:
  assumes "\<not> isWhiteSpace c" "\<not> isDigit c" "\<not> isLetter c"
  shows "matches (c # cs) subchapterPattern \<longleftrightarrow> c = 8226 \<or> c = 45"
proof -
  from assms(3) have u: "\<not> isUpper (canon c)" by (simp add: isLetter_canon)
  from assms(3) have cc: "canon c = c" by (auto simp: canon_def isLetter_def)
  show ?thesis using assms(1,2) u cc
    by (simp add: matches_def exec_def subchapterPattern_def subchapterAlternatives_def
        ascii_def canon_def isLower_def)
qed

section \<open>The second loop keeps the ids in step with the counters\<close>

lemma upt_from_1_Suc: "[1..<Suc (Suc n)] = [1..<Suc n] @ [Suc n]"
  by simp

lemma scan_inv_init: "scan_inv scan_init"
  by (simp add: scan_inv_def scan_init_def push_current_def chapter_ids_def)

lemma scan_inv_chapter:
  assumes "scan_inv st"
  shows "scan_inv (st\<lparr>chapters := push_current st,
           currentChapter := Some \<lparr>ch_id = String_nat (chapterCounter st), ch_title = t,
                                   ch_content = b, ch_subchapters = []\<rparr>,
           chapterCounter := chapterCounter st + 1,
           subChapterCounter := 1\<rparr>)"
  using assms
  by (simp add: scan_inv_def push_current_def [of "_\<lparr>chapters := _, currentChapter := _, chapterCounter := _, subChapterCounter := _\<rparr>"] chapter_ids_def subchapter_ids_def)

lemma scan_inv_subchapter:
  assumes "scan_inv st" "currentChapter st = Some c"
  shows "scan_inv (st\<lparr>currentChapter := Some (c\<lparr>ch_subchapters := ch_subchapters c @
            [\<lparr>sub_id = ch_id c @ ascii ''.'' @ String_nat (subChapterCounter st),
              sub_title = t, sub_content = b\<rparr>]\<rparr>),
           subChapterCounter := subChapterCounter st + 1\<rparr>)"
  using assms
  by (simp add: scan_inv_def push_current_def chapter_ids_def subchapter_ids_def)

lemma scan_inv_content:
  assumes "scan_inv st" "currentChapter st = Some c"
  shows "scan_inv (st\<lparr>currentChapter := Some (c\<lparr>ch_content := b\<rparr>)\<rparr>)"
  using assms
  by (simp add: scan_inv_def push_current_def chapter_ids_def subchapter_ids_def)

lemma scan_inv_row: "scan_inv st \<Longrightarrow> scan_inv (scan_row st row)"
  unfolding scan_row_def
  by (auto simp only: scan_inv_chapter scan_inv_subchapter scan_inv_content split: if_splits option.splits)

lemma scan_inv_rows: "scan_inv st \<Longrightarrow> scan_inv (foldl scan_row st rows)"
  by (induction rows arbitrary: st) (simp_all add: scan_inv_row)

lemma scan_chapters_ids:
  "chapter_ids (scan_chapters rows) \<and> list_all subchapter_ids (scan_chapters rows)"
  using scan_inv_rows [OF scan_inv_init, of "drop 1 rows"]
  by (simp add: scan_inv_def scan_chapters_def)

section \<open>The first loop, row by row\<close>

lemma includes_str_head: "includes_str t (k # ks) \<Longrightarrow> k \<in> set t"
  by (induction t) auto

lemma toLowerCase_source:
  assumes "k \<in> set (toLowerCase s)" "\<not> isWhiteSpace k"
  shows "\<exists>u \<in> set s. \<not> isWhiteSpace u"
proof -
  from assms(1) obtain u where u: "u \<in> set s" "k \<in> set (lowerUnit u)"
    by (auto simp: toLowerCase_def)
  have "\<not> isWhiteSpace u"
    using u(2) assms(2)
    by (auto simp: lowerUnit_def isUpper_def isWhiteSpace_def split: if_splits)
  with u(1) show ?thesis by blast
qed

lemma trim_nonempty:
  assumes "u \<in> set s" "\<not> isWhiteSpace u"
  shows "trim s \<noteq> []"
proof -
  have "dropWhile isWhiteSpace s \<noteq> []"
    using assms by (auto simp: dropWhile_eq_Nil_conv)
  moreover have "set (dropWhile isWhiteSpace s) \<subseteq> set s \<and> u \<in> set (dropWhile isWhiteSpace s)"
    using assms by (induction s) auto
  then have "dropWhile isWhiteSpace (rev (dropWhile isWhiteSpace s)) \<noteq> []"
    using assms(2) by (auto simp: dropWhile_eq_Nil_conv)
  then show ?thesis by (simp add: trim_def)
qed

lemma keyword_not_blank:
  assumes "includes_str (toLowerCase s) (k # ks)" "\<not> isWhiteSpace k"
  shows "s \<noteq> [] \<and> trim s \<noteq> []"
proof -
  from assms(1) have "k \<in> set (toLowerCase s)" by (rule includes_str_head)
  with assms(2) obtain u where "u \<in> set s" "\<not> isWhiteSpace u"
    using toLowerCase_source by blast
  then show ?thesis using trim_nonempty by auto
qed

lemma title_keyword_not_blank:
  "includes_str (toLowerCase s) (ascii ''title'') \<Longrightarrow> s \<noteq> [] \<and> trim s \<noteq> []"
  "includes_str (toLowerCase s) (ascii ''project'') \<Longrightarrow> s \<noteq> [] \<and> trim s \<noteq> []"
  "includes_str (toLowerCase s) (ascii ''description'') \<Longrightarrow> s \<noteq> [] \<and> trim s \<noteq> []"
proof -
  have t: "ascii ''title'' = 116 # ascii ''itle''"
    and p: "ascii ''project'' = 112 # ascii ''roject''"
    and d: "ascii ''description'' = 100 # ascii ''escription''"
    by (simp_all add: ascii_def)
  have w: "\<not> isWhiteSpace 116" "\<not> isWhiteSpace 112" "\<not> isWhiteSpace 100"
    by (simp_all add: isWhiteSpace_def)
  show "includes_str (toLowerCase s) (ascii ''title'') \<Longrightarrow> s \<noteq> [] \<and> trim s \<noteq> []"
    unfolding t by (rule keyword_not_blank [OF _ w(1)])
  show "includes_str (toLowerCase s) (ascii ''project'') \<Longrightarrow> s \<noteq> [] \<and> trim s \<noteq> []"
    unfolding p by (rule keyword_not_blank [OF _ w(2)])
  show "includes_str (toLowerCase s) (ascii ''description'') \<Longrightarrow> s \<noteq> [] \<and> trim s \<noteq> []"
    unfolding d by (rule keyword_not_blank [OF _ w(3)])
qed

lemma meta_row_title:
  "fst (meta_row td row) = (if title_row row then trim (String_of (cell_at row 1)) else fst td)"
  using title_keyword_not_blank
  by (cases "cell_at row 0") (auto simp: meta_row_def title_row_def)

lemma meta_row_description:
  "snd (meta_row td row) =
     (if description_row row then trim (String_of (cell_at row 1)) else snd td)"
  using title_keyword_not_blank
  by (cases "cell_at row 0") (auto simp: meta_row_def description_row_def)

lemma foldl_meta_title:
  "fst (foldl meta_row td rows) =
     (if filter title_row rows = [] then fst td
      else trim (String_of (cell_at (last (filter title_row rows)) 1)))"
  by (induction rows rule: rev_induct) (simp_all add: meta_row_title)

lemma foldl_meta_description:
  "snd (foldl meta_row td rows) =
     (if filter description_row rows = [] then snd td
      else trim (String_of (cell_at (last (filter description_row rows)) 1)))"
  by (induction rows rule: rev_induct) (simp_all add: meta_row_description)

section \<open>Rows the second loop passes over, and rows it takes for subchapters\<close>

lemma scan_row_dropped:
  "currentChapter st = None \<Longrightarrow> \<not> isChapterStart (cellValue row) \<Longrightarrow> scan_row st row = st"
  by (simp add: scan_row_def)

text \<open>A row that qualifies for no field, and an empty row, leave both loops as they were.\<close>

lemma meta_row_skip:
  "\<not> title_row row \<Longrightarrow> \<not> description_row row \<Longrightarrow> meta_row td row = td"
  by (rule prod_eqI) (simp_all add: meta_row_title meta_row_description)

lemma meta_row_empty: "meta_row td [] = td"
  by (simp add: meta_row_def cell_at_def)

lemma scan_row_empty: "scan_row st [] = st"
  by (simp add: scan_row_def cell_at_def)

lemma foldl_take_replace:
  assumes "\<And>td. f td a = f td b"
  shows "foldl f td (take n (xs @ a # ys)) = foldl f td (take n (xs @ b # ys))"
proof (induction xs arbitrary: n td)
  case Nil
  show ?case using assms by (cases n) simp_all
next
  case (Cons x xs)
  show ?case using Cons.IH by (cases n) simp_all
qed

lemma take_min_length: "take (min n (length xs)) xs = take n xs"
  by (simp add: min_def)

lemma metadata_replace:
  assumes "4 \<le> length pre \<or> (\<not> title_row row \<and> \<not> description_row row)"
  shows "metadata (hdr # pre @ row # post) = metadata (hdr # pre @ [] # post)"
proof -
  have "foldl meta_row td (take 5 (hdr # pre @ row # post))
      = foldl meta_row td (take 5 (hdr # pre @ [] # post))" for td
  proof (cases "4 \<le> length pre")
    case True
    then have "take 5 (hdr # pre @ row # post) = take 5 (hdr # pre @ [] # post)"
      by simp
    then show ?thesis by (simp only:)
  next
    case False
    with assms have "\<And>td. meta_row td row = meta_row td []"
      by (simp add: meta_row_skip meta_row_empty)
    then show ?thesis
      using foldl_take_replace [of meta_row row "[]" td 5 "hdr # pre" post]
      by (simp only: append_Cons)
  qed
  then show ?thesis by (simp only: metadata_def take_min_length)
qed

lemma starts_truthy:
  assumes "cellValue row = c # cs" "c = 8226 \<or> c = 45"
  shows "truthy (cell_at row 0)"
proof (cases "cell_at row 0")
  case (Text s)
  with assms(1) show ?thesis by (auto simp: cellValue_def trim_def)
next
  case (Number d)
  with assms show ?thesis
    by (auto simp: cellValue_def trim_def ascii_def isWhiteSpace_def)
next
  case (Bool b)
  with assms show ?thesis
    by (auto simp: cellValue_def trim_def ascii_def isWhiteSpace_def split: if_splits)
next
  case Empty
  with assms show ?thesis
    by (auto simp: cellValue_def trim_def ascii_def isWhiteSpace_def)
qed

lemma isChapterStart_iff:
  "isChapterStart cv \<longleftrightarrow>
     (\<exists>c cs. cv = c # cs \<and> (isDigit c \<or> isLetter c))
     \<or> (\<exists>k \<in> set chapterKeywords. includes_str (toLowerCase cv) k)"
  by (simp add: isChapterStart_def chapterPattern_iff chapterKeywords_def)

lemma adds_subchapter_iff:
  "adds_subchapter st row \<longleftrightarrow>
     currentChapter st \<noteq> None \<and> truthy (cell_at row 0) \<and> \<not> isChapterStart (cellValue row)
     \<and> cellValue row \<noteq> [] \<and> isSubchapterStart (cellValue row)"
  by (auto simp: adds_subchapter_def scan_row_def split: option.splits)

lemma isSubchapterStart_trimmed:
  assumes "cellValue row = c # cs" "\<not> isDigit c" "\<not> isLetter c"
  shows "isSubchapterStart (cellValue row) \<longleftrightarrow> c = 8226 \<or> c = 45"
proof -
  have w: "\<not> isWhiteSpace c" using assms(1) unfolding cellValue_def by (rule trim_head)
  then have "c \<noteq> 32" by (auto simp: isWhiteSpace_def)
  then have "\<not> startsWith (c # cs) (ascii ''  '')" by (simp add: ascii_def)
  then show ?thesis
    using subchapterPattern_head [OF w assms(2,3)] assms(1)
    by (simp add: isSubchapterStart_def)
qed

section \<open>Running the function on a given grid\<close>

text \<open>The definitions that \<open>simp\<close> unfolds to run the function on a grid of literals.\<close>

lemmas eval_defs = parseExcelToSoW_def metadata_def meta_row_def scan_chapters_def scan_row_def
  scan_init_def push_current_def cellValue_def contentValue_def cell_at_def trim_def
  isWhiteSpace_def ascii_def isChapterStart_def isSubchapterStart_def matches_def exec_def
  replace_empty_def chapterPattern_def subchapterPattern_def subchapterAlternatives_def
  subchapterPrefix_def isUpper_def isLower_def isDigit_def canon_def toLowerCase_def
  lowerUnit_def String_nat.simps fallback_chapter_def row_join_def content_line_def

section \<open>The empty grid\<close>

text \<open>
  C1. The function raises its error, \<open>Empty Excel file\<close>, exactly when the grid is
  absent or has no rows, and it raises no other error; on every grid with at least one
  row, whatever the cells hold, it returns a structure with title, description and
  content.
\<close>

theorem empty_input_error:
  "(parseExcelToSoW data = Inl (Error ''Empty Excel file'') \<longleftrightarrow> data = None \<or> data = Some [])
   \<and> ((\<exists>e. parseExcelToSoW data = Inl e) \<longleftrightarrow> data = None \<or> data = Some [])
   \<and> (\<forall>rows. rows \<noteq> [] \<longrightarrow> (\<exists>r. parseExcelToSoW (Some rows) = Inr r))"
  by (auto simp: parseExcelToSoW_def split: option.splits)

theorem empty_input_error_witness:
  "parseExcelToSoW None = Inl (Error ''Empty Excel file'')
   \<and> parseExcelToSoW (Some []) = Inl (Error ''Empty Excel file'')
   \<and> [[Bool False], [Empty, Number (ascii ''NaN'')], []] \<noteq> []
   \<and> (\<exists>r. parseExcelToSoW (Some [[Bool False], [Empty, Number (ascii ''NaN'')], []]) = Inr r)"
  using empty_input_error [of None] empty_input_error [of "Some []"]
    empty_input_error [of "Some [[Bool False], [Empty, Number (ascii ''NaN'')], []]"]
  by simp

section \<open>The scenarios of the specification\<close>

text \<open>
  C2. On the grid of the first scenario the title is \<open>My Project\<close>, as claimed, but
  the result has three chapters and no subchapter: the rows \<open>Title\<close> and
  \<open>1.1 Scope\<close> begin with a letter and with a digit, which is all the chapter pattern
  asks for, so each starts a chapter and the test for a numbered subchapter is never
  reached.
\<close>

theorem scenario_1_runs:
  "parseExcelToSoW (Some [[Text (ascii ''Header''), Text (ascii '''')],
                          [Text (ascii ''Title''), Text (ascii ''My Project'')],
                          [Text (ascii ''Overview''), Text (ascii ''Intro text'')],
                          [Text (ascii ''1.1 Scope''), Text (ascii ''In scope items'')]])
   = Inr \<lparr>title = ascii ''My Project'',
          description = ascii ''Imported from Excel file'',
          content = \<lparr>doc_chapters =
            [\<lparr>ch_id = ascii ''1'', ch_title = ascii ''Title'',
              ch_content = ascii ''My Project'', ch_subchapters = []\<rparr>,
             \<lparr>ch_id = ascii ''2'', ch_title = ascii ''Overview'',
              ch_content = ascii ''Intro text'', ch_subchapters = []\<rparr>,
             \<lparr>ch_id = ascii ''3'', ch_title = ascii ''1.1 Scope'',
              ch_content = ascii ''In scope items'', ch_subchapters = []\<rparr>]\<rparr>\<rparr>"
  by (simp add: eval_defs)

text \<open>
  C3. On the grid of the fifth scenario the indented row is trimmed before it is tested,
  begins with a letter and starts a chapter of its own: three chapters, no subchapter. On
  the second grid the indented row fails the chapter test, and still it is no subchapter:
  the test for two leading spaces is made on the trimmed text, so the row becomes a line
  of the content of the chapter.
\<close>

theorem scenario_5_runs:
  "parseExcelToSoW (Some [[Text (ascii ''H'')],
                          [Text (ascii ''1. Plan''), Text (ascii ''p'')],
                          [Text (ascii ''  sub note''), Text (ascii ''s'')],
                          [Text (ascii ''2. Build''), Text (ascii ''b'')]])
   = Inr \<lparr>title = ascii ''Imported SoW Document'',
          description = ascii ''Imported from Excel file'',
          content = \<lparr>doc_chapters =
            [\<lparr>ch_id = ascii ''1'', ch_title = ascii ''1. Plan'',
              ch_content = ascii ''p'', ch_subchapters = []\<rparr>,
             \<lparr>ch_id = ascii ''2'', ch_title = ascii ''sub note'',
              ch_content = ascii ''s'', ch_subchapters = []\<rparr>,
             \<lparr>ch_id = ascii ''3'', ch_title = ascii ''2. Build'',
              ch_content = ascii ''b'', ch_subchapters = []\<rparr>]\<rparr>\<rparr>
   \<and> parseExcelToSoW (Some [[Text (ascii ''H'')],
                          [Text (ascii ''1. Plan''), Text (ascii ''p'')],
                          [Text (ascii ''  (note)''), Text (ascii ''s'')]])
   = Inr \<lparr>title = ascii ''Imported SoW Document'',
          description = ascii ''Imported from Excel file'',
          content = \<lparr>doc_chapters =
            [\<lparr>ch_id = ascii ''1'', ch_title = ascii ''1. Plan'',
              ch_content = ascii ''p'' @ [10] @ ascii ''(note): s'', ch_subchapters = []\<rparr>]\<rparr>\<rparr>"
  by (simp add: eval_defs)

text \<open>
  C4. On the grid of the third scenario the row \<open>random note\<close> begins with a letter
  and starts chapter 1, with \<open>x\<close> as its content; the fallback chapter is not made.
\<close>

theorem scenario_3_runs:
  "parseExcelToSoW (Some [[Text (ascii ''H'')],
                          [Text (ascii ''random note''), Text (ascii ''x'')]])
   = Inr \<lparr>title = ascii ''Imported SoW Document'',
          description = ascii ''Imported from Excel file'',
          content = \<lparr>doc_chapters =
            [\<lparr>ch_id = ascii ''1'', ch_title = ascii ''random note'',
              ch_content = ascii ''x'', ch_subchapters = []\<rparr>]\<rparr>\<rparr>"
  by (simp add: eval_defs)

section \<open>At least one chapter\<close>

text \<open>
  C5. On every grid with at least one row the chapters of the result are not empty: they
  are the chapters of the scan when it found one, and the single fallback chapter
  otherwise.
\<close>

theorem chapters_nonempty:
  "rows \<noteq> [] \<Longrightarrow>
   \<exists>r. parseExcelToSoW (Some rows) = Inr r \<and> doc_chapters (content r) \<noteq> []
       \<and> (if scan_chapters rows \<noteq> [] then doc_chapters (content r) = scan_chapters rows
          else doc_chapters (content r) = [fallback_chapter rows])"
  by (simp add: parseExcelToSoW_def)

theorem chapters_nonempty_witness:
  "[[Text (ascii ''H'')], [Text (ascii ''- item''), Text (ascii ''x'')]] \<noteq> []
   \<and> (\<exists>r. parseExcelToSoW (Some [[Text (ascii ''H'')], [Text (ascii ''- item''), Text (ascii ''x'')]]) = Inr r
        \<and> doc_chapters (content r) \<noteq> [])"
  using chapters_nonempty [of "[[Text (ascii ''H'')], [Text (ascii ''- item''), Text (ascii ''x'')]]"]
  by auto

section \<open>The ids of chapters and subchapters\<close>

text \<open>
  C6. When the chapters of the result come from the scan, their ids are, in order, the
  decimal numerals 1 to N for N chapters, and the ids of the subchapters of each chapter
  are, in order, the id of the chapter, a dot and the numerals from 1 on.
\<close>

theorem scan_ids:
  assumes "scan_chapters rows \<noteq> []"
      and "parseExcelToSoW (Some rows) = Inr r"
  shows "map ch_id (doc_chapters (content r))
           = map String_nat [1..<Suc (length (doc_chapters (content r)))]
         \<and> (\<forall>c \<in> set (doc_chapters (content r)).
              map sub_id (ch_subchapters c)
              = map (\<lambda>n. ch_id c @ ascii ''.'' @ String_nat n)
                  [1..<Suc (length (ch_subchapters c))])"
proof -
  from assms have "doc_chapters (content r) = scan_chapters rows"
    by (auto simp: parseExcelToSoW_def split: if_splits)
  with scan_chapters_ids [of rows] show ?thesis
    by (simp add: chapter_ids_def subchapter_ids_def list_all_iff)
qed

theorem scan_ids_witness:
  "scan_chapters [[Text (ascii ''H'')],
                  [Text (ascii ''1. Plan''), Text (ascii ''p'')],
                  [Text (ascii ''- a''), Text (ascii ''x'')],
                  [Text (ascii ''- b''), Text (ascii ''y'')],
                  [Text (ascii ''2. Build''), Text (ascii ''b'')],
                  [Text (ascii ''- c''), Text (ascii ''z'')]] \<noteq> []
   \<and> (\<exists>r. parseExcelToSoW (Some [[Text (ascii ''H'')],
                  [Text (ascii ''1. Plan''), Text (ascii ''p'')],
                  [Text (ascii ''- a''), Text (ascii ''x'')],
                  [Text (ascii ''- b''), Text (ascii ''y'')],
                  [Text (ascii ''2. Build''), Text (ascii ''b'')],
                  [Text (ascii ''- c''), Text (ascii ''z'')]]) = Inr r
        \<and> map ch_id (doc_chapters (content r)) = [ascii ''1'', ascii ''2'']
        \<and> map (\<lambda>c. map sub_id (ch_subchapters c)) (doc_chapters (content r))
          = [[ascii ''1.1'', ascii ''1.2''], [ascii ''2.1'']])"
proof -
  let ?g = "[[Text (ascii ''H'')],
             [Text (ascii ''1. Plan''), Text (ascii ''p'')],
             [Text (ascii ''- a''), Text (ascii ''x'')],
             [Text (ascii ''- b''), Text (ascii ''y'')],
             [Text (ascii ''2. Build''), Text (ascii ''b'')],
             [Text (ascii ''- c''), Text (ascii ''z'')]]"
  let ?r = "\<lparr>title = ascii ''Imported SoW Document'',
            description = ascii ''Imported from Excel file'',
            content = \<lparr>doc_chapters =
              [\<lparr>ch_id = ascii ''1'', ch_title = ascii ''1. Plan'', ch_content = ascii ''p'',
                ch_subchapters =
                  [\<lparr>sub_id = ascii ''1.1'', sub_title = ascii ''a'', sub_content = ascii ''x''\<rparr>,
                   \<lparr>sub_id = ascii ''1.2'', sub_title = ascii ''b'', sub_content = ascii ''y''\<rparr>]\<rparr>,
               \<lparr>ch_id = ascii ''2'', ch_title = ascii ''2. Build'', ch_content = ascii ''b'',
                ch_subchapters =
                  [\<lparr>sub_id = ascii ''2.1'', sub_title = ascii ''c'', sub_content = ascii ''z''\<rparr>]\<rparr>]\<rparr>\<rparr>"
  have run: "parseExcelToSoW (Some ?g) = Inr ?r"
    by (simp add: eval_defs)
  have found: "scan_chapters ?g \<noteq> []"
    by (simp add: eval_defs)
  from scan_ids [OF found run] found run show ?thesis
    by (simp add: ascii_def String_nat.simps)
qed

section \<open>Title and description: the last qualifying row\<close>

text \<open>
  C7, as it is stated, counts a row for the description as soon as its first cell holds
  \<open>description\<close> and its second cell is not empty. On the grid below the second row
  is the last such row, yet it holds \<open>project\<close> too and so sets the title; the
  description stays what the first row made it.
\<close>

theorem description_row_with_project:
  "includes_str (toLowerCase (ascii ''Description'')) (ascii ''description'')
   \<and> includes_str (toLowerCase (ascii ''Project description'')) (ascii ''description'')
   \<and> truthy (Text (ascii ''A'')) \<and> truthy (Text (ascii ''B''))
   \<and> parseExcelToSoW (Some [[Text (ascii ''Description''), Text (ascii ''A'')],
                            [Text (ascii ''Project description''), Text (ascii ''B'')]])
     = Inr \<lparr>title = ascii ''B'',
            description = ascii ''A'',
            content = \<lparr>doc_chapters =
              [\<lparr>ch_id = ascii ''1'', ch_title = ascii ''Project description'',
                ch_content = ascii ''B'', ch_subchapters = []\<rparr>]\<rparr>\<rparr>"
  by (simp add: eval_defs)

text \<open>
  C7, amended. Among the first five rows, the last row that qualifies for the title gives
  the title, and the last row that qualifies for the description gives the description,
  each as the trimmed text of its second cell; a field for which no row qualifies keeps
  its default. A row that holds \<open>title\<close> or \<open>project\<close> qualifies for the title
  only.
\<close>

theorem last_match_wins:
  assumes "parseExcelToSoW (Some rows) = Inr r"
  shows "title r =
           (if filter title_row (take 5 rows) = [] then ascii ''Imported SoW Document''
            else trim (String_of (cell_at (last (filter title_row (take 5 rows))) 1)))
         \<and> description r =
           (if filter description_row (take 5 rows) = [] then ascii ''Imported from Excel file''
            else trim (String_of (cell_at (last (filter description_row (take 5 rows))) 1)))"
proof -
  have "take (min 5 (length rows)) rows = take 5 rows" by (simp add: min_def)
  with assms show ?thesis
    by (auto simp: parseExcelToSoW_def metadata_def foldl_meta_title foldl_meta_description
        split: if_splits)
qed

theorem last_match_wins_witness:
  "parseExcelToSoW (Some [[Text (ascii ''Title''), Text (ascii ''A'')],
                          [Text (ascii ''Project''), Text (ascii ''B'')],
                          [Text (ascii ''Description''), Text (ascii ''C'')],
                          [Text (ascii ''About the project''), Text (ascii '' D '')],
                          [Text (ascii ''description''), Text (ascii ''E'')],
                          [Text (ascii ''Title''), Text (ascii ''F'')]])
     = Inr \<lparr>title = ascii ''D'',
            description = ascii ''E'',
            content = \<lparr>doc_chapters =
              [\<lparr>ch_id = ascii ''1'', ch_title = ascii ''Project'',
                ch_content = ascii ''B'', ch_subchapters = []\<rparr>,
               \<lparr>ch_id = ascii ''2'', ch_title = ascii ''Description'',
                ch_content = ascii ''C'', ch_subchapters = []\<rparr>,
               \<lparr>ch_id = ascii ''3'', ch_title = ascii ''About the project'',
                ch_content = ascii ''D'', ch_subchapters = []\<rparr>,
               \<lparr>ch_id = ascii ''4'', ch_title = ascii ''description'',
                ch_content = ascii ''E'', ch_subchapters = []\<rparr>,
               \<lparr>ch_id = ascii ''5'', ch_title = ascii ''Title'',
                ch_content = ascii ''F'', ch_subchapters = []\<rparr>]\<rparr>\<rparr>
   \<and> filter title_row (take 5 [[Text (ascii ''Title''), Text (ascii ''A'')],
                          [Text (ascii ''Project''), Text (ascii ''B'')],
                          [Text (ascii ''Description''), Text (ascii ''C'')],
                          [Text (ascii ''About the project''), Text (ascii '' D '')],
                          [Text (ascii ''description''), Text (ascii ''E'')],
                          [Text (ascii ''Title''), Text (ascii ''F'')]])
     = [[Text (ascii ''Title''), Text (ascii ''A'')],
        [Text (ascii ''Project''), Text (ascii ''B'')],
        [Text (ascii ''About the project''), Text (ascii '' D '')]]
   \<and> filter description_row (take 5 [[Text (ascii ''Title''), Text (ascii ''A'')],
                          [Text (ascii ''Project''), Text (ascii ''B'')],
                          [Text (ascii ''Description''), Text (ascii ''C'')],
                          [Text (ascii ''About the project''), Text (ascii '' D '')],
                          [Text (ascii ''description''), Text (ascii ''E'')],
                          [Text (ascii ''Title''), Text (ascii ''F'')]])
     = [[Text (ascii ''Description''), Text (ascii ''C'')],
        [Text (ascii ''description''), Text (ascii ''E'')]]"
proof -
  let ?g = "[[Text (ascii ''Title''), Text (ascii ''A'')],
             [Text (ascii ''Project''), Text (ascii ''B'')],
             [Text (ascii ''Description''), Text (ascii ''C'')],
             [Text (ascii ''About the project''), Text (ascii '' D '')],
             [Text (ascii ''description''), Text (ascii ''E'')],
             [Text (ascii ''Title''), Text (ascii ''F'')]]"
  have run: "\<exists>r. parseExcelToSoW (Some ?g) = Inr r"
    by (simp add: parseExcelToSoW_def)
  then obtain r where r: "parseExcelToSoW (Some ?g) = Inr r" by blast
  have t: "filter title_row (take 5 ?g)
             = [[Text (ascii ''Title''), Text (ascii ''A'')],
                [Text (ascii ''Project''), Text (ascii ''B'')],
                [Text (ascii ''About the project''), Text (ascii '' D '')]]"
    by (simp add: title_row_def cell_at_def toLowerCase_def lowerUnit_def isUpper_def ascii_def)
  have d: "filter description_row (take 5 ?g)
             = [[Text (ascii ''Description''), Text (ascii ''C'')],
                [Text (ascii ''description''), Text (ascii ''E'')]]"
    by (simp add: description_row_def cell_at_def toLowerCase_def lowerUnit_def isUpper_def
        ascii_def)
  from last_match_wins [OF r] have "title r = ascii ''D'' \<and> description r = ascii ''E''"
    unfolding t d by (simp add: cell_at_def trim_def isWhiteSpace_def ascii_def)
  moreover have "content r = \<lparr>doc_chapters =
              [\<lparr>ch_id = ascii ''1'', ch_title = ascii ''Project'',
                ch_content = ascii ''B'', ch_subchapters = []\<rparr>,
               \<lparr>ch_id = ascii ''2'', ch_title = ascii ''Description'',
                ch_content = ascii ''C'', ch_subchapters = []\<rparr>,
               \<lparr>ch_id = ascii ''3'', ch_title = ascii ''About the project'',
                ch_content = ascii ''D'', ch_subchapters = []\<rparr>,
               \<lparr>ch_id = ascii ''4'', ch_title = ascii ''description'',
                ch_content = ascii ''E'', ch_subchapters = []\<rparr>,
               \<lparr>ch_id = ascii ''5'', ch_title = ascii ''Title'',
                ch_content = ascii ''F'', ch_subchapters = []\<rparr>]\<rparr>"
    using r by (auto simp: eval_defs)
  ultimately have "r = \<lparr>title = ascii ''D'', description = ascii ''E'', content = content r\<rparr>"
    by (cases r) simp
  with r t d \<open>content r = _\<close> show ?thesis by simp
qed

section \<open>Rows met while no chapter is open\<close>

text \<open>
  C8, as it is stated, has such a row contribute nothing to the result. On the first grid
  below the row \<open>- item\<close> matches the subchapter pattern and is met with no chapter
  open; the scan finds no chapter at all, and the fallback chapter joins every row behind
  the header, this one included: its content is \<open>- item x\<close>, and empty without the
  row. On the second grid the scan does find a chapter, and the row \<open>- project\<close>,
  passed over by the scan, is read by the first loop and gives the title.
\<close>

theorem dropped_row_in_fallback:
  "currentChapter (foldl scan_row scan_init []) = None
   \<and> \<not> isChapterStart (cellValue [Text (ascii ''- item''), Text (ascii ''x'')])
   \<and> isSubchapterStart (cellValue [Text (ascii ''- item''), Text (ascii ''x'')])
   \<and> parseExcelToSoW (Some [[Text (ascii ''H'')],
                            [Text (ascii ''- item''), Text (ascii ''x'')]])
     = Inr \<lparr>title = ascii ''Imported SoW Document'',
            description = ascii ''Imported from Excel file'',
            content = \<lparr>doc_chapters =
              [\<lparr>ch_id = ascii ''1'', ch_title = ascii ''Project Overview'',
                ch_content = ascii ''- item x'', ch_subchapters = []\<rparr>]\<rparr>\<rparr>
   \<and> parseExcelToSoW (Some [[Text (ascii ''H'')]])
     = Inr \<lparr>title = ascii ''Imported SoW Document'',
            description = ascii ''Imported from Excel file'',
            content = \<lparr>doc_chapters =
              [\<lparr>ch_id = ascii ''1'', ch_title = ascii ''Project Overview'',
                ch_content = [], ch_subchapters = []\<rparr>]\<rparr>\<rparr>
   \<and> \<not> isChapterStart (cellValue [Text (ascii ''- project''), Text (ascii ''X'')])
   \<and> isSubchapterStart (cellValue [Text (ascii ''- project''), Text (ascii ''X'')])
   \<and> parseExcelToSoW (Some [[Text (ascii ''H'')],
                            [Text (ascii ''- project''), Text (ascii ''X'')],
                            [Text (ascii ''1. Plan''), Text (ascii ''p'')]])
     = Inr \<lparr>title = ascii ''X'',
            description = ascii ''Imported from Excel file'',
            content = \<lparr>doc_chapters =
              [\<lparr>ch_id = ascii ''1'', ch_title = ascii ''1. Plan'',
                ch_content = ascii ''p'', ch_subchapters = []\<rparr>]\<rparr>\<rparr>
   \<and> parseExcelToSoW (Some [[Text (ascii ''H'')],
                            [Text (ascii ''1. Plan''), Text (ascii ''p'')]])
     = Inr \<lparr>title = ascii ''Imported SoW Document'',
            description = ascii ''Imported from Excel file'',
            content = \<lparr>doc_chapters =
              [\<lparr>ch_id = ascii ''1'', ch_title = ascii ''1. Plan'',
                ch_content = ascii ''p'', ch_subchapters = []\<rparr>]\<rparr>\<rparr>"
  by (simp add: eval_defs)

text \<open>
  C8, amended. A row that matches the subchapter pattern, does not start a chapter and is
  met while no chapter is open is not taken for a subchapter and leaves the scan as it
  was: the scan finds the same chapters with the row and without it, and when it finds
  any, the content of the result is the same. If the scan finds a chapter and the row
  lies behind the first five rows or qualifies neither for the title nor for the
  description, the whole result is that of the grid with an empty row in its place. When
  the scan finds no chapter, the content of the fallback chapter is the join of every row
  behind the header, this row among them.
\<close>

theorem dropped_row_leaves_scan:
  assumes "currentChapter (foldl scan_row scan_init pre) = None"
      and "\<not> isChapterStart (cellValue row)"
      and "isSubchapterStart (cellValue row)"
  shows "scan_chapters (hdr # pre @ row # post) = scan_chapters (hdr # pre @ post)
         \<and> (scan_chapters (hdr # pre @ post) \<noteq> [] \<longrightarrow>
              (\<exists>r r'. parseExcelToSoW (Some (hdr # pre @ row # post)) = Inr r
                    \<and> parseExcelToSoW (Some (hdr # pre @ post)) = Inr r'
                    \<and> content r = content r'))
         \<and> (scan_chapters (hdr # pre @ post) \<noteq> []
              \<and> (4 \<le> length pre \<or> (\<not> title_row row \<and> \<not> description_row row)) \<longrightarrow>
              parseExcelToSoW (Some (hdr # pre @ row # post))
                = parseExcelToSoW (Some (hdr # pre @ [] # post)))
         \<and> (scan_chapters (hdr # pre @ post) = [] \<longrightarrow>
              (\<exists>r. parseExcelToSoW (Some (hdr # pre @ row # post)) = Inr r
                  \<and> map ch_content (doc_chapters (content r))
                    = [join [10] (map row_join (pre @ row # post))]))"
proof -
  have "scan_row (foldl scan_row scan_init pre) row = foldl scan_row scan_init pre"
    using assms(1,2) by (rule scan_row_dropped)
  then have eq: "scan_chapters (hdr # pre @ row # post) = scan_chapters (hdr # pre @ post)"
    by (simp add: scan_chapters_def)
  have eq': "scan_chapters (hdr # pre @ [] # post) = scan_chapters (hdr # pre @ post)"
    by (simp add: scan_chapters_def scan_row_empty)
  have whole: "parseExcelToSoW (Some (hdr # pre @ row # post))
                = parseExcelToSoW (Some (hdr # pre @ [] # post))"
    if "scan_chapters (hdr # pre @ post) \<noteq> []"
       "4 \<le> length pre \<or> (\<not> title_row row \<and> \<not> description_row row)"
    using that(1) metadata_replace [OF that(2), of hdr post] eq eq'
    by (simp add: parseExcelToSoW_def)
  from eq whole show ?thesis
    by (simp add: parseExcelToSoW_def fallback_chapter_def)
qed

theorem dropped_row_leaves_scan_witness:
  "currentChapter (foldl scan_row scan_init [[Text (ascii ''- first'')]]) = None
   \<and> \<not> isChapterStart (cellValue [Text (ascii ''- item''), Text (ascii ''x'')])
   \<and> isSubchapterStart (cellValue [Text (ascii ''- item''), Text (ascii ''x'')])
   \<and> scan_chapters [[Text (ascii ''H'')], [Text (ascii ''- first'')], [Text (ascii ''- item''), Text (ascii ''x'')], [Text (ascii ''1. Plan''), Text (ascii ''p'')]]
     = scan_chapters [[Text (ascii ''H'')], [Text (ascii ''- first'')], [Text (ascii ''1. Plan''), Text (ascii ''p'')]]
   \<and> scan_chapters [[Text (ascii ''H'')], [Text (ascii ''- first'')], [Text (ascii ''1. Plan''), Text (ascii ''p'')]] \<noteq> []
   \<and> (\<exists>r r'. parseExcelToSoW (Some [[Text (ascii ''H'')], [Text (ascii ''- first'')], [Text (ascii ''- item''), Text (ascii ''x'')], [Text (ascii ''1. Plan''), Text (ascii ''p'')]]) = Inr r
           \<and> parseExcelToSoW (Some [[Text (ascii ''H'')], [Text (ascii ''- first'')], [Text (ascii ''1. Plan''), Text (ascii ''p'')]]) = Inr r'
           \<and> content r = content r')
   \<and> \<not> title_row [Text (ascii ''- item''), Text (ascii ''x'')]
   \<and> \<not> description_row [Text (ascii ''- item''), Text (ascii ''x'')]
   \<and> parseExcelToSoW (Some [[Text (ascii ''H'')], [Text (ascii ''- first'')], [Text (ascii ''- item''), Text (ascii ''x'')], [Text (ascii ''1. Plan''), Text (ascii ''p'')]])
     = parseExcelToSoW (Some [[Text (ascii ''H'')], [Text (ascii ''- first'')], [], [Text (ascii ''1. Plan''), Text (ascii ''p'')]])
   \<and> currentChapter (foldl scan_row scan_init []) = None
   \<and> scan_chapters [[Text (ascii ''H'')]] = []
   \<and> (\<exists>r. parseExcelToSoW (Some [[Text (ascii ''H'')], [Text (ascii ''- item''), Text (ascii ''x'')]]) = Inr r
         \<and> map ch_content (doc_chapters (content r)) = [ascii ''- item x''])"
proof -
  have closed: "currentChapter (foldl scan_row scan_init [[Text (ascii ''- first'')]]) = None"
    by (simp add: eval_defs)
  have closed0: "currentChapter (foldl scan_row scan_init []) = None"
    by (simp add: scan_init_def)
  have no_start: "\<not> isChapterStart (cellValue [Text (ascii ''- item''), Text (ascii ''x'')])"
    by (simp add: eval_defs)
  have sub: "isSubchapterStart (cellValue [Text (ascii ''- item''), Text (ascii ''x'')])"
    by (simp add: eval_defs)
  have found: "scan_chapters [[Text (ascii ''H'')], [Text (ascii ''- first'')], [Text (ascii ''1. Plan''), Text (ascii ''p'')]] \<noteq> []"
    by (simp add: eval_defs)
  have none: "scan_chapters [[Text (ascii ''H'')]] = []"
    by (simp add: eval_defs)
  have plain: "\<not> title_row [Text (ascii ''- item''), Text (ascii ''x'')]"
    "\<not> description_row [Text (ascii ''- item''), Text (ascii ''x'')]"
    by (simp_all add: title_row_def description_row_def cell_at_def toLowerCase_def
        lowerUnit_def isUpper_def ascii_def)
  have joined: "join [10] (map row_join [[Text (ascii ''- item''), Text (ascii ''x'')]]) = ascii ''- item x''"
    by (simp add: row_join_def ascii_def)
  note with_chapters =
    dropped_row_leaves_scan [OF closed no_start sub, of "[Text (ascii ''H'')]"
      "[[Text (ascii ''1. Plan''), Text (ascii ''p'')]]", simplified append_Cons append_Nil]
  note without_chapters =
    dropped_row_leaves_scan [OF closed0 no_start sub, of "[Text (ascii ''H'')]" "[]",
      simplified append_Cons append_Nil]
  have s4: "\<exists>r. parseExcelToSoW (Some [[Text (ascii ''H'')], [Text (ascii ''- item''), Text (ascii ''x'')]]) = Inr r
         \<and> map ch_content (doc_chapters (content r)) = [ascii ''- item x'']"
    using without_chapters none joined by simp
  show ?thesis
    using with_chapters found plain closed closed0 no_start sub none s4 by blast
qed

section \<open>What starts a chapter, and what is left for subchapters\<close>

text \<open>
  C10, as it is stated, has every row whose trimmed first cell begins with a digit start
  a chapter. The number 0 prints as \<open>0\<close>, which the chapter test accepts, but the
  cell is falsy and the loop passes over its row before any test: the scan finds no
  chapter on the grid below.
\<close>

theorem zero_cell_skipped:
  "cellValue [Number (ascii ''0''), Text (ascii ''x'')] = [48]
   \<and> isDigit 48
   \<and> isChapterStart (cellValue [Number (ascii ''0''), Text (ascii ''x'')])
   \<and> scan_row scan_init [Number (ascii ''0''), Text (ascii ''x'')] = scan_init
   \<and> parseExcelToSoW (Some [[Text (ascii ''H'')], [Number (ascii ''0''), Text (ascii ''x'')]])
     = Inr \<lparr>title = ascii ''Imported SoW Document'',
            description = ascii ''Imported from Excel file'',
            content = \<lparr>doc_chapters =
              [\<lparr>ch_id = ascii ''1'', ch_title = ascii ''Project Overview'',
                ch_content = ascii ''0 x'', ch_subchapters = []\<rparr>]\<rparr>\<rparr>"
  by (simp add: eval_defs)

text \<open>
  C10, amended. A row whose first cell is truthy and whose trimmed first cell begins with
  an ASCII letter or an ASCII digit passes the chapter test and starts a new chapter.
  So a round takes its row for a subchapter exactly when a chapter is open, the trimmed
  first cell begins with the bullet U+2022 or with a hyphen, and it holds none of the
  five chapter words.
\<close>

theorem chapter_by_first_unit:
  "(truthy (cell_at row 0) \<and> cellValue row = c # cs \<and> (isDigit c \<or> isLetter c) \<longrightarrow>
      isChapterStart (cellValue row)
      \<and> scan_row st row =
          st\<lparr>chapters := push_current st,
             currentChapter := Some \<lparr>ch_id = String_nat (chapterCounter st),
                                     ch_title = cellValue row,
                                     ch_content = contentValue row,
                                     ch_subchapters = []\<rparr>,
             chapterCounter := chapterCounter st + 1,
             subChapterCounter := 1\<rparr>)
   \<and> (adds_subchapter st row \<longleftrightarrow>
        currentChapter st \<noteq> None
        \<and> (\<exists>cs'. cellValue row = 8226 # cs' \<or> cellValue row = 45 # cs')
        \<and> (\<forall>k \<in> set chapterKeywords. \<not> includes_str (toLowerCase (cellValue row)) k))"
proof (intro conjI impI)
  assume a: "truthy (cell_at row 0) \<and> cellValue row = c # cs \<and> (isDigit c \<or> isLetter c)"
  then show s: "isChapterStart (cellValue row)" by (auto simp: isChapterStart_iff)
  with a show "scan_row st row =
          st\<lparr>chapters := push_current st,
             currentChapter := Some \<lparr>ch_id = String_nat (chapterCounter st),
                                     ch_title = cellValue row,
                                     ch_content = contentValue row,
                                     ch_subchapters = []\<rparr>,
             chapterCounter := chapterCounter st + 1,
             subChapterCounter := 1\<rparr>"
    by (simp add: scan_row_def)
next
  show "adds_subchapter st row \<longleftrightarrow>
        currentChapter st \<noteq> None
        \<and> (\<exists>cs'. cellValue row = 8226 # cs' \<or> cellValue row = 45 # cs')
        \<and> (\<forall>k \<in> set chapterKeywords. \<not> includes_str (toLowerCase (cellValue row)) k)"
  proof
    assume "adds_subchapter st row"
    then have o: "currentChapter st \<noteq> None" and n: "\<not> isChapterStart (cellValue row)"
      and e: "cellValue row \<noteq> []" and s: "isSubchapterStart (cellValue row)"
      by (simp_all add: adds_subchapter_iff)
    from e obtain d ds where d: "cellValue row = d # ds" by (cases "cellValue row") auto
    with n have nd: "\<not> isDigit d" "\<not> isLetter d"
      and nk: "\<forall>k \<in> set chapterKeywords. \<not> includes_str (toLowerCase (cellValue row)) k"
      by (auto simp: isChapterStart_iff)
    from s have "d = 8226 \<or> d = 45" using isSubchapterStart_trimmed [OF d nd] by simp
    with o d nk show "currentChapter st \<noteq> None
        \<and> (\<exists>cs'. cellValue row = 8226 # cs' \<or> cellValue row = 45 # cs')
        \<and> (\<forall>k \<in> set chapterKeywords. \<not> includes_str (toLowerCase (cellValue row)) k)"
      by auto
  next
    assume r: "currentChapter st \<noteq> None
        \<and> (\<exists>cs'. cellValue row = 8226 # cs' \<or> cellValue row = 45 # cs')
        \<and> (\<forall>k \<in> set chapterKeywords. \<not> includes_str (toLowerCase (cellValue row)) k)"
    then obtain d ds where d: "cellValue row = d # ds" and v: "d = 8226 \<or> d = 45" by auto
    from v have nd: "\<not> isDigit d" "\<not> isLetter d"
      by (auto simp: isDigit_def isLetter_def isUpper_def isLower_def)
    have "truthy (cell_at row 0)" using d v by (rule starts_truthy)
    moreover have "\<not> isChapterStart (cellValue row)"
      using r d nd by (auto simp: isChapterStart_iff)
    moreover have "isSubchapterStart (cellValue row)"
      using isSubchapterStart_trimmed [OF d nd] v by simp
    ultimately show "adds_subchapter st row"
      using r d by (simp add: adds_subchapter_iff)
  qed
qed

theorem chapter_by_first_unit_witness:
  "truthy (cell_at [Text (ascii ''random note''), Text (ascii ''x'')] 0)
   \<and> cellValue [Text (ascii ''random note''), Text (ascii ''x'')] = 114 # ascii ''andom note''
   \<and> isLetter 114
   \<and> isChapterStart (cellValue [Text (ascii ''random note''), Text (ascii ''x'')])
   \<and> scan_row scan_init [Text (ascii ''random note''), Text (ascii ''x'')]
     = \<lparr>chapters = [],
            currentChapter = Some \<lparr>ch_id = ascii ''1'', ch_title = ascii ''random note'',
                                    ch_content = ascii ''x'', ch_subchapters = []\<rparr>,
            chapterCounter = 2, subChapterCounter = 1\<rparr>
   \<and> adds_subchapter
         \<lparr>chapters = [],
            currentChapter = Some \<lparr>ch_id = ascii ''1'', ch_title = ascii ''random note'',
                                    ch_content = ascii ''x'', ch_subchapters = []\<rparr>,
            chapterCounter = 2, subChapterCounter = 1\<rparr>
         [Text (ascii ''- item''), Text (ascii ''y'')]
   \<and> cellValue [Text (ascii ''- item''), Text (ascii ''y'')] = 45 # ascii '' item''
   \<and> \<not> includes_str (toLowerCase (cellValue [Text (ascii ''- item''), Text (ascii ''y'')])) (ascii ''overview'')
   \<and> \<not> includes_str (toLowerCase (cellValue [Text (ascii ''- item''), Text (ascii ''y'')])) (ascii ''requirement'')
   \<and> \<not> includes_str (toLowerCase (cellValue [Text (ascii ''- item''), Text (ascii ''y'')])) (ascii ''deliverable'')
   \<and> \<not> includes_str (toLowerCase (cellValue [Text (ascii ''- item''), Text (ascii ''y'')])) (ascii ''timeline'')
   \<and> \<not> includes_str (toLowerCase (cellValue [Text (ascii ''- item''), Text (ascii ''y'')])) (ascii ''budget'')"
proof -
  let ?st = "\<lparr>chapters = [],
            currentChapter = Some \<lparr>ch_id = ascii ''1'', ch_title = ascii ''random note'',
                                    ch_content = ascii ''x'', ch_subchapters = []\<rparr>,
            chapterCounter = 2, subChapterCounter = 1\<rparr>"
  have t: "truthy (cell_at [Text (ascii ''random note''), Text (ascii ''x'')] 0)"
    by (simp add: cell_at_def ascii_def)
  have v: "cellValue [Text (ascii ''random note''), Text (ascii ''x'')] = 114 # ascii ''andom note''"
    by (simp add: eval_defs)
  have l: "isLetter 114"
    by (simp add: isLetter_def isLower_def)
  have a: "adds_subchapter ?st [Text (ascii ''- item''), Text (ascii ''y'')]"
    by (simp add: adds_subchapter_def eval_defs)
  have w: "cellValue [Text (ascii ''- item''), Text (ascii ''y'')] = 45 # ascii '' item''"
    by (simp add: eval_defs)
  from chapter_by_first_unit [of "[Text (ascii ''random note''), Text (ascii ''x'')]" 114 "ascii ''andom note''" scan_init] t v l
  have "isChapterStart (cellValue [Text (ascii ''random note''), Text (ascii ''x'')])
        \<and> scan_row scan_init [Text (ascii ''random note''), Text (ascii ''x'')] = ?st"
    by (simp add: scan_init_def push_current_def contentValue_def cell_at_def trim_def
        isWhiteSpace_def ascii_def String_nat.simps)
  moreover from chapter_by_first_unit [of "[Text (ascii ''- item''), Text (ascii ''y'')]" 0 "[]" ?st] a
  have "\<forall>k \<in> set chapterKeywords. \<not> includes_str (toLowerCase (cellValue [Text (ascii ''- item''), Text (ascii ''y'')])) k"
    by blast
  then have "\<not> includes_str (toLowerCase (cellValue [Text (ascii ''- item''), Text (ascii ''y'')])) (ascii ''overview'')
     \<and> \<not> includes_str (toLowerCase (cellValue [Text (ascii ''- item''), Text (ascii ''y'')])) (ascii ''requirement'')
     \<and> \<not> includes_str (toLowerCase (cellValue [Text (ascii ''- item''), Text (ascii ''y'')])) (ascii ''deliverable'')
     \<and> \<not> includes_str (toLowerCase (cellValue [Text (ascii ''- item''), Text (ascii ''y'')])) (ascii ''timeline'')
     \<and> \<not> includes_str (toLowerCase (cellValue [Text (ascii ''- item''), Text (ascii ''y'')])) (ascii ''budget'')"
    by (simp add: chapterKeywords_def)
  ultimately show ?thesis using t v l a w by blast
qed

end
